theory Spec2Isabelle
  imports Complex_Main
begin

section \<open>Quota manager (src/ai/quota\_manager.py)\<close>

subsection \<open>Time\<close>

text \<open>
  A naive \<open>datetime\<close> is the number of microseconds since midnight of some fixed day.
  Subtracting two of them gives a \<open>timedelta\<close>, whose \<open>days\<close> attribute is the floor of
  the difference in whole days (Python normalises a negative difference to a negative
  number of days and a non-negative rest). \<open>date_of\<close> is the calendar date of a
  \<open>datetime\<close>, as a day number.
\<close>

type_synonym datetime = int

definition us_per_day :: int where
  "us_per_day = 86400000000"

definition timedelta_days :: "datetime \<Rightarrow> datetime \<Rightarrow> int" where
  "timedelta_days a b = (a - b) div us_per_day"

definition date_of :: "datetime \<Rightarrow> int" where
  "date_of t = t div us_per_day"

subsection \<open>Backends and the counter record\<close>

datatype AIBackend = HUGGINGFACE | OLLAMA | FALLBACK

datatype STTBackend = VOSK | SHERPA_ONNX | STT_HUGGINGFACE

datatype TTSBackend = PYTTSX3 | AZURE | ESPEAK

text \<open>
  The row of table \<open>api_quota_tracker\<close> (class \<open>APIQuotaTracker\<close> of database/models.py).
  The surrogate key \<open>id\<close> is assigned by the database and never read; rows are found by
  the unique \<open>service_name\<close>, so the table is a map from service names to rows.
  \<open>updated_at\<close> has no default, only \<open>onupdate\<close>: it is empty until the first update.
\<close>

record APIQuotaTracker =
  service_name :: string
  daily_calls :: int
  daily_limit :: int
  last_reset_date :: datetime
  is_quota_exceeded :: bool
  updated_at :: "datetime option"

type_synonym quota_table = "string \<rightharpoonup> APIQuotaTracker"

text \<open>\<open>DEFAULT_QUOTAS\<close>: a limit is a number of calls or \<open>float("inf")\<close>.\<close>

datatype quota_limit = Calls int | Inf

definition DEFAULT_QUOTAS :: "(string \<times> quota_limit) list" where
  "DEFAULT_QUOTAS =
     [(''huggingface'', Calls 1000),
      (''azure_tts'', Calls 5000000),
      (''vosk'', Inf),
      (''ollama'', Inf)]"

record current_backends =
  ai :: AIBackend
  stt :: STTBackend
  tts :: TTSBackend

subsection \<open>Operations\<close>

text \<open>
  Every operation opens a session on the table, works on it and commits; the model
  passes the table in and returns the table after the commit. Two clocks are read:
  \<open>now\<close> is the value of \<open>datetime.now()\<close> during the call, the local time of the
  process; \<open>db_now\<close> is the value of the database's \<open>func.now()\<close> during the call, which
  the database stores where a column has \<open>server_default\<close> or \<open>onupdate\<close> and the code
  assigns nothing. Nothing relates the two. A new row gets its \<open>last_reset_date\<close> from the
  database; the reset of \<open>check_quota\<close> assigns the local time to \<open>last_reset_date\<close> and
  leaves \<open>updated_at\<close> to the database. Failures of the persistence layer itself (the
  \<open>except\<close> branches) are outside the model: the table is taken to answer every query.
\<close>

definition new_tracker :: "string \<Rightarrow> quota_limit \<Rightarrow> datetime \<Rightarrow> APIQuotaTracker" where
  "new_tracker service limit db_now =
     \<lparr> service_name = service,
       daily_calls = 0,
       daily_limit = (case limit of Inf \<Rightarrow> 999999 | Calls n \<Rightarrow> n),
       last_reset_date = db_now,
       is_quota_exceeded = False,
       updated_at = None \<rparr>"

definition add_if_missing :: "datetime \<Rightarrow> quota_table \<Rightarrow> string \<times> quota_limit \<Rightarrow> quota_table" where
  "add_if_missing db_now db item =
     (case item of (service, limit) \<Rightarrow>
        (case db service of
           None \<Rightarrow> db(service \<mapsto> new_tracker service limit db_now)
         | Some tracker \<Rightarrow> db))"

definition initialize_quota_trackers :: "quota_table \<Rightarrow> datetime \<Rightarrow> quota_table" where
  "initialize_quota_trackers db db_now = foldl (add_if_missing db_now) db DEFAULT_QUOTAS"

definition QuotaManager_init :: "quota_table \<Rightarrow> datetime \<Rightarrow> current_backends \<times> quota_table" where
  "QuotaManager_init db db_now =
     (\<lparr> ai = HUGGINGFACE, stt = VOSK, tts = PYTTSX3 \<rparr>, initialize_quota_trackers db db_now)"

definition check_quota ::
  "quota_table \<Rightarrow> string \<Rightarrow> datetime \<Rightarrow> datetime \<Rightarrow> (bool \<times> int) \<times> quota_table" where
  "check_quota db name now db_now =
     (case db name of
        None \<Rightarrow> ((True, 999999), db)
      | Some tracker \<Rightarrow>
          if timedelta_days now (last_reset_date tracker) \<ge> 1
          then
            (let tracker' = tracker\<lparr> daily_calls := 0, last_reset_date := now,
                                     updated_at := Some db_now \<rparr>
             in ((daily_calls tracker' < daily_limit tracker',
                  max 0 (daily_limit tracker' - daily_calls tracker')),
                 db(name \<mapsto> tracker')))
          else
            ((daily_calls tracker < daily_limit tracker,
              max 0 (daily_limit tracker - daily_calls tracker)),
             db))"

definition track_usage :: "quota_table \<Rightarrow> string \<Rightarrow> int \<Rightarrow> datetime \<Rightarrow> quota_table" where
  "track_usage db name units now =
     (case db name of
        None \<Rightarrow> db
      | Some tracker \<Rightarrow>
          (let calls = daily_calls tracker + units
           in db(name \<mapsto> tracker\<lparr> daily_calls := calls,
                                  updated_at := Some now,
                                  is_quota_exceeded := (calls \<ge> daily_limit tracker) \<rparr>)))"

definition get_best_ai_backend ::
  "current_backends \<Rightarrow> quota_table \<Rightarrow> datetime \<Rightarrow> datetime
     \<Rightarrow> AIBackend \<times> current_backends \<times> quota_table" where
  "get_best_ai_backend cb db now db_now =
     (case check_quota db ''huggingface'' now db_now of
        ((hf_ok, hf_remaining), db') \<Rightarrow>
          if hf_ok \<and> hf_remaining > 0
          then (HUGGINGFACE, cb\<lparr> ai := HUGGINGFACE \<rparr>, db')
          else (OLLAMA, cb\<lparr> ai := OLLAMA \<rparr>, db'))"

definition get_best_stt_backend ::
  "current_backends \<Rightarrow> quota_table \<Rightarrow> datetime \<Rightarrow> datetime \<Rightarrow> bool
     \<Rightarrow> STTBackend \<times> current_backends \<times> quota_table" where
  "get_best_stt_backend cb db now db_now require_online =
     (if \<not> require_online then (VOSK, cb\<lparr> stt := VOSK \<rparr>, db)
      else
        (case check_quota db ''huggingface'' now db_now of
           ((hf_ok, hf_remaining), db') \<Rightarrow>
             if hf_ok then (STT_HUGGINGFACE, cb\<lparr> stt := STT_HUGGINGFACE \<rparr>, db')
             else (VOSK, cb\<lparr> stt := VOSK \<rparr>, db')))"

definition get_best_tts_backend :: "current_backends \<Rightarrow> TTSBackend \<times> current_backends" where
  "get_best_tts_backend cb = (PYTTSX3, cb\<lparr> tts := PYTTSX3 \<rparr>)"

text \<open>Calling \<open>track_usage(name, 1)\<close> once at each of the given moments, in order.\<close>

definition track_each :: "quota_table \<Rightarrow> string \<Rightarrow> datetime list \<Rightarrow> quota_table" where
  "track_each db name moments = foldl (\<lambda>d t. track_usage d name 1 t) db moments"

text \<open>
  The relation between the flag \<open>is_quota_exceeded\<close> and the counts that \<open>track_usage\<close>
  establishes when it recomputes the flag.
\<close>

definition flag_agrees :: "APIQuotaTracker \<Rightarrow> bool" where
  "flag_agrees t = (is_quota_exceeded t = (daily_calls t \<ge> daily_limit t))"

section \<open>Audio processor (src/audio/processor.py)\<close>

text \<open>
  Python's \<open>int(x)\<close> on a float truncates towards zero. The errors that the modelled
  functions can raise are values of \<open>py_error\<close>.
\<close>

datatype py_error = ValueError | OverflowError

definition py_int :: "real \<Rightarrow> int" where
  "py_int x = (if 0 \<le> x then \<lfloor>x\<rfloor> else \<lceil>x\<rceil>)"

text \<open>
  \<open>range(0, stop, step)\<close> for a length \<open>stop\<close>: a zero step raises \<open>ValueError\<close>, a negative
  step gives the empty range, a positive step gives \<open>0, step, 2 * step, ...\<close> below
  \<open>stop\<close>.
\<close>

definition py_range0 :: "nat \<Rightarrow> int \<Rightarrow> py_error + nat list" where
  "py_range0 stop step =
     (if step = 0 then Inl ValueError
      else if step < 0 then Inr []
      else Inr (map (\<lambda>k. k * nat step) [0..<(stop + nat step - 1) div nat step]))"

text \<open>
  \<open>chunk_size = int(sample_rate * chunk_duration_ms / 1000)\<close>: the product of two integers,
  a true division and a truncation. The quotient is taken exactly, which is what the
  float division gives for every product below \<open>2 ^ 53\<close> up to the truncation.
\<close>

definition chunk_size :: "int \<Rightarrow> int \<Rightarrow> int" where
  "chunk_size sample_rate chunk_duration_ms =
     py_int (real_of_int (sample_rate * chunk_duration_ms) / 1000)"

text \<open>
  An array is the list of its elements along the first axis, so \<open>len\<close> is \<open>length\<close>,
  the slice \<open>audio_data[i:i + chunk_size]\<close> is \<open>take chunk_size (drop i audio_data)\<close> and
  \<open>np.concatenate(chunks, axis=0)\<close> is \<open>concat\<close>. The loop runs over the range and appends
  each non-empty slice.
\<close>

definition split_audio_chunks :: "'a list \<Rightarrow> int \<Rightarrow> int \<Rightarrow> py_error + 'a list list" where
  "split_audio_chunks audio_data sample_rate chunk_duration_ms =
     (let size = chunk_size sample_rate chunk_duration_ms
      in case py_range0 (length audio_data) size of
           Inl e \<Rightarrow> Inl e
         | Inr indices \<Rightarrow>
             Inr (foldl (\<lambda>chunks i.
                          (let chunk = take (nat size) (drop i audio_data)
                           in if length chunk > 0 then chunks @ [chunk] else chunks))
                    [] indices))"

definition concatenate_chunks :: "'a list list \<Rightarrow> 'a list" where
  "concatenate_chunks chunks = (if chunks = [] then [] else concat chunks)"

text \<open>
  Samples are Python integers; \<open>int16\<close> says that one fits 16 signed bits, as every sample
  of an audio frame does. \<open>astype(np.float32)\<close> is exact on such samples. The rounding of
  a product to \<open>float32\<close> is the parameter \<open>f32\<close> of the functions below, so the results
  hold for whatever that rounding does. \<open>np.clip(x, lo, hi)\<close> is
  \<open>minimum(maximum(x, lo), hi)\<close>; \<open>astype(np.int16)\<close> truncates towards zero and keeps
  the low 16 bits.
\<close>

definition int16 :: "int \<Rightarrow> bool" where
  "int16 v = (- 32768 \<le> v \<and> v \<le> 32767)"

definition np_clip :: "real \<Rightarrow> real \<Rightarrow> real \<Rightarrow> real" where
  "np_clip x lo hi = min (max x lo) hi"

definition astype_int16 :: "real \<Rightarrow> int" where
  "astype_int16 x = (py_int x + 32768) mod 65536 - 32768"

definition scale_clip :: "(real \<Rightarrow> real) \<Rightarrow> real \<Rightarrow> int list \<Rightarrow> int list" where
  "scale_clip f32 gain audio_data =
     map (\<lambda>s. astype_int16 (np_clip (f32 (real_of_int s * gain)) (- 32768) 32767)) audio_data"

text \<open>
  The clipping policy in the words of the specification, to compare the code with: a value
  at or beyond a bound of the 16-bit signed range becomes that bound, a value inside the
  range is truncated towards zero.
\<close>

definition clipped_sample :: "real \<Rightarrow> int" where
  "clipped_sample v =
     (if 32767 \<le> v then 32767 else if v \<le> - 32768 then - 32768 else py_int v)"

text \<open>
  \<open>10 ** x\<close> on Python floats raises \<open>OverflowError\<close> when the result exceeds the largest
  double. The gains are computed over the reals; infinities and NaN are not modelled.
  On the empty frame \<open>np_mean\<close> is 0 here (NaN in numpy), and both the code and the model
  return the empty frame.
\<close>

definition float_max :: real where
  "float_max = 2 ^ 1024 - 2 ^ 971"

definition py_pow10 :: "real \<Rightarrow> py_error + real" where
  "py_pow10 x = (if 10 powr x > float_max then Inl OverflowError else Inr (10 powr x))"

definition np_mean :: "real list \<Rightarrow> real" where
  "np_mean xs = sum_list xs / real (length xs)"

definition normalize_audio :: "(real \<Rightarrow> real) \<Rightarrow> int list \<Rightarrow> real \<Rightarrow> int list" where
  "normalize_audio f32 audio_data target_db =
     (let rms = sqrt (np_mean (map (\<lambda>s. (real_of_int s)\<^sup>2) audio_data))
      in if rms = 0 then audio_data
         else
           (let current_db = 20 * log 10 (rms / 32767);
                gain = 10 powr ((target_db - current_db) / 20)
            in scale_clip f32 gain audio_data))"

definition apply_gain :: "(real \<Rightarrow> real) \<Rightarrow> int list \<Rightarrow> real \<Rightarrow> int list" where
  "apply_gain f32 audio_data gain_db =
     (case py_pow10 (gain_db / 20) of
        Inl e \<Rightarrow> audio_data
      | Inr gain_linear \<Rightarrow> scale_clip f32 gain_linear audio_data)"

section \<open>Speech synthesis route (src/api/routes/voice.py, src/speech/synthesis/pyttsx3\_engine.py)\<close>

text \<open>
  The engine object: its settings, whether it is initialised, the voices the driver
  enumerates (their id and name), and the driver properties \<open>voice\<close> (the id of the active
  voice), \<open>rate\<close> and \<open>volume\<close>. There is one engine object per process
  (\<open>get_pyttsx3_engine\<close>), so the state of the engine after one request is its state
  before the next.
\<close>

record Voice =
  voice_id :: string
  voice_name :: string

record TextToSpeechSettings =
  pyttsx3_voice_index :: int
  pyttsx3_rate :: int
  pyttsx3_volume :: real

record Pyttsx3Engine =
  tts_settings :: TextToSpeechSettings
  is_initialized :: bool
  available_voices :: "Voice list"
  voice_property :: string
  rate_property :: int
  volume_property :: real

text \<open>
  \<open>_initialize_engine\<close>. The driver that \<open>pyttsx3.init()\<close> returns comes with its voices
  and with a voice of its own choice active; \<open>None\<close> stands for an \<open>init\<close> that raises. The
  configured default voice is the one at \<open>pyttsx3_voice_index\<close>, selected when the list is
  longer than the index. The index is a Python index: a negative one counts from the end
  and raises \<open>IndexError\<close> when it reaches before the first voice, which leaves the engine
  uninitialised. \<open>list_voices\<close> returns one entry per voice, in order, with its index.
\<close>

definition initialize_engine ::
  "TextToSpeechSettings \<Rightarrow> (Voice list \<times> string) option \<Rightarrow> Pyttsx3Engine" where
  "initialize_engine settings driver =
     (case driver of
        None \<Rightarrow>
          \<lparr> tts_settings = settings, is_initialized = False, available_voices = [],
            voice_property = [], rate_property = 0, volume_property = 0 \<rparr>
      | Some (voices, driver_voice) \<Rightarrow>
          (let configured =
                 \<lparr> tts_settings = settings, is_initialized = True, available_voices = voices,
                   voice_property = driver_voice, rate_property = pyttsx3_rate settings,
                   volume_property = pyttsx3_volume settings \<rparr>;
               n = int (length voices);
               i = pyttsx3_voice_index settings
           in if n > i
              then
                if 0 \<le> i then configured\<lparr> voice_property := voice_id (voices ! nat i) \<rparr>
                else if - n \<le> i
                then configured\<lparr> voice_property := voice_id (voices ! nat (n + i)) \<rparr>
                else configured\<lparr> is_initialized := False \<rparr>
              else configured))"

record voice_entry =
  entry_index :: nat
  entry_id :: string
  entry_name :: string

definition list_voices :: "Pyttsx3Engine \<Rightarrow> voice_entry list" where
  "list_voices e =
     map (\<lambda>(i, v). \<lparr> entry_index = i, entry_id = voice_id v, entry_name = voice_name v \<rparr>)
       (enumerate 0 (available_voices e))"

definition set_voice :: "Pyttsx3Engine \<Rightarrow> nat \<Rightarrow> bool \<times> Pyttsx3Engine" where
  "set_voice e voice_index =
     (if voice_index < length (available_voices e)
      then (True, e\<lparr> voice_property := voice_id (available_voices e ! voice_index) \<rparr>)
      else (False, e))"

definition set_rate :: "Pyttsx3Engine \<Rightarrow> int \<Rightarrow> bool \<times> Pyttsx3Engine" where
  "set_rate e rate = (True, e\<lparr> rate_property := rate \<rparr>)"

text \<open>
  Strings are lists of characters with code points below 256. \<open>str.lower()\<close> maps the
  upper-case letters of that range to their lower-case ones; \<open>str.strip()\<close> removes
  leading and trailing white space.
\<close>

definition py_lower_char :: "char \<Rightarrow> char" where
  "py_lower_char c =
     (let n = (of_char c :: nat)
      in if (65 \<le> n \<and> n \<le> 90) \<or> (192 \<le> n \<and> n \<le> 222 \<and> n \<noteq> 215)
         then char_of (n + 32) else c)"

definition py_lower :: "string \<Rightarrow> string" where
  "py_lower s = map py_lower_char s"

definition py_isspace :: "char \<Rightarrow> bool" where
  "py_isspace c =
     (let n = (of_char c :: nat)
      in (9 \<le> n \<and> n \<le> 13) \<or> (28 \<le> n \<and> n \<le> 32) \<or> n = 133 \<or> n = 160)"

definition py_strip :: "string \<Rightarrow> string" where
  "py_strip s = rev (dropWhile py_isspace (rev (dropWhile py_isspace s)))"

text \<open>
  The route. What the engine writes for a text and what reading the file back gives lie
  outside the program: \<open>synth\<close> maps the engine's configuration and the text to the
  outcome, which is a failed \<open>speak_to_file\<close>, a failed read of the file, or the samples
  and their sample rate. The state holds the engine, the manager's current backends and
  the messages logged at level WARNING. The response carries the samples; their base64
  encoding is not modelled, and neither is the text of an exception inside the detail of
  the generic 500 answer. Constructing a \<open>SpeakResponse\<close> whose \<open>voice_used\<close> is \<open>None\<close>
  fails validation and ends in that answer too.
\<close>

datatype http_error = HTTPException int string

datatype tts_outcome = SaveFailed | ReadFailed | Audio "int list" int

record SpeakRequest =
  "text" :: string
  voice :: "string option"
  speed :: real
  language :: string

record SpeakResponse =
  audio_data :: "int list"
  duration_seconds :: real
  voice_used :: string

record tts_state =
  engine :: Pyttsx3Engine
  backends :: current_backends
  warnings :: "string list"

text \<open>
  \<open>find_voice\<close> is the loop of the route over the enumerated voices, which stops at the
  first name that matches in lower case; \<open>select_voice\<close> is the block of the route around
  it ("Set voice if specified").
\<close>

fun find_voice :: "voice_entry list \<Rightarrow> string \<Rightarrow> nat \<Rightarrow> nat option" where
  "find_voice [] requested i = None"
| "find_voice (v # vs) requested i =
     (if py_lower (entry_name v) = py_lower requested then Some i
      else find_voice vs requested (Suc i))"

definition select_voice :: "tts_state \<Rightarrow> string option \<Rightarrow> tts_state" where
  "select_voice st requested =
     (case requested of
        None \<Rightarrow> st
      | Some v \<Rightarrow>
          if v = [] \<or> v = ''default'' then st
          else
            (case find_voice (list_voices (engine st)) v 0 of
               Some i \<Rightarrow> st\<lparr> engine := snd (set_voice (engine st) i) \<rparr>
             | None \<Rightarrow>
                 st\<lparr> warnings := warnings st @ [''Voice '' @ v @ '' not found, using default''] \<rparr>))"

definition speak_text ::
  "(Pyttsx3Engine \<Rightarrow> string \<Rightarrow> tts_outcome) \<Rightarrow> tts_state \<Rightarrow> SpeakRequest
     \<Rightarrow> (http_error + SpeakResponse) \<times> tts_state" where
  "speak_text synth st request =
     (if text request = [] \<or> length (py_strip (text request)) = 0
      then (Inl (HTTPException 400 ''Text cannot be empty''), st)
      else if length (text request) > 5000
      then (Inl (HTTPException 400 ''Text too long (max 5000 characters)''), st)
      else
        (case get_best_tts_backend (backends st) of
           (tts_backend, cb) \<Rightarrow>
             (let st1 = st\<lparr> backends := cb \<rparr>
              in if tts_backend = PYTTSX3
                 then
                   if \<not> is_initialized (engine st1)
                   then (Inl (HTTPException 503 ''TTS engine not initialized''), st1)
                   else
                     (let st2 = select_voice st1 (voice request);
                          rate = py_int (150 * speed request);
                          st3 = st2\<lparr> engine := snd (set_rate (engine st2) rate) \<rparr>
                      in case synth (engine st3) (text request) of
                           SaveFailed \<Rightarrow>
                             (Inl (HTTPException 500 ''Failed to generate speech''), st3)
                         | ReadFailed \<Rightarrow> (Inl (HTTPException 500 ''TTS error''), st3)
                         | Audio samples sample_rate \<Rightarrow>
                             if sample_rate = 0
                             then (Inl (HTTPException 500 ''TTS error''), st3)
                             else
                               (case voice request of
                                  None \<Rightarrow> (Inl (HTTPException 500 ''TTS error''), st3)
                                | Some v \<Rightarrow>
                                    (Inr \<lparr> audio_data = samples,
                                           duration_seconds =
                                             real (length samples) / real_of_int sample_rate,
                                           voice_used = v \<rparr>,
                                     st3)))
                 else (Inl (HTTPException 503 ''TTS backend not available''), st1))))"

section \<open>Facts about the quota manager\<close>

lemma us_per_day_pos: "0 < us_per_day"
  by (simp add: us_per_day_def)

lemma timedelta_days_ge_1_iff:
  "timedelta_days now prev \<ge> 1 \<longleftrightarrow> prev + us_per_day \<le> now"
proof -
  have "0 < (now - prev) div us_per_day \<longleftrightarrow> us_per_day \<le> now - prev"
    by (rule pos_imp_zdiv_pos_iff [OF us_per_day_pos])
  then show ?thesis
    by (auto simp: timedelta_days_def)
qed

lemma same_date_no_whole_day:
  assumes "date_of now = date_of prev"
  shows "timedelta_days now prev < 1"
proof -
  have n: "now = us_per_day * (now div us_per_day) + now mod us_per_day" by simp
  have p: "prev = us_per_day * (prev div us_per_day) + prev mod us_per_day" by simp
  have "now mod us_per_day < us_per_day" "0 \<le> prev mod us_per_day"
    using us_per_day_pos by simp_all
  moreover have "now - prev = now mod us_per_day - prev mod us_per_day"
    using assms n p unfolding date_of_def
    by (metis add_diff_cancel_left' diff_diff_eq2 diff_add_eq)
  ultimately have "now - prev < us_per_day" by linarith
  then have "\<not> prev + us_per_day \<le> now" by linarith
  then show ?thesis using timedelta_days_ge_1_iff [of now prev] by linarith
qed

lemma track_usage_present:
  "db name = Some t \<Longrightarrow>
   track_usage db name units now name =
     Some (t\<lparr> daily_calls := daily_calls t + units, updated_at := Some now,
              is_quota_exceeded := (daily_calls t + units \<ge> daily_limit t) \<rparr>)"
  by (simp add: track_usage_def Let_def)


lemma flag_agrees_new_tracker:
  "(service, limit) \<in> set DEFAULT_QUOTAS \<Longrightarrow> flag_agrees (new_tracker service limit db_now)"
  by (auto simp: DEFAULT_QUOTAS_def new_tracker_def flag_agrees_def)

lemma flag_agrees_track_usage:
  "track_usage db name units now name = Some t' \<Longrightarrow> flag_agrees t'"
  by (auto simp: track_usage_def Let_def flag_agrees_def split: option.splits)

lemma track_each_present:
  "db name = Some t \<Longrightarrow> moments \<noteq> [] \<Longrightarrow>
   track_each db name moments name =
     Some (t\<lparr> daily_calls := daily_calls t + int (length moments),
              updated_at := Some (last moments),
              is_quota_exceeded := (daily_calls t + int (length moments) \<ge> daily_limit t) \<rparr>)"
proof (induction moments arbitrary: db t)
  case Nil
  then show ?case by simp
next
  case (Cons m ms)
  let ?t1 = "t\<lparr> daily_calls := daily_calls t + 1, updated_at := Some m,
                 is_quota_exceeded := (daily_calls t + 1 \<ge> daily_limit t) \<rparr>"
  have step: "track_usage db name 1 m name = Some ?t1"
    using Cons.prems(1) by (rule track_usage_present)
  show ?case
  proof (cases "ms = []")
    case True
    then show ?thesis using step by (simp add: track_each_def)
  next
    case False
    from Cons.IH [of "track_usage db name 1 m" ?t1, OF step False]
    show ?thesis using False by (simp add: track_each_def add.assoc)
  qed
qed

lemma initialize_quota_trackers_lookup:
  "initialize_quota_trackers db db_now name =
     (case db name of
        Some t \<Rightarrow> Some t
      | None \<Rightarrow> (case map_of DEFAULT_QUOTAS name of
                   Some limit \<Rightarrow> Some (new_tracker name limit db_now)
                 | None \<Rightarrow> None))"
  by (simp add: initialize_quota_trackers_def DEFAULT_QUOTAS_def add_if_missing_def
           split: option.splits)

text \<open>
  What \<open>check_quota\<close> does to an existing counter: a reset exactly when one whole day
  (24 hours) or more lies between its \<open>last_reset_date\<close> and now. A counter whose
  \<open>last_reset_date\<close> is on today's calendar date is therefore never reset.
\<close>

lemma check_quota_reset_iff:
  assumes "db name = Some t"
  shows "snd (check_quota db name now db_now) name
         = (if last_reset_date t + us_per_day \<le> now
            then Some (t\<lparr> daily_calls := 0, last_reset_date := now, updated_at := Some db_now \<rparr>)
            else Some t)"
  using assms by (simp add: check_quota_def Let_def timedelta_days_ge_1_iff)

lemma check_quota_same_date_kept:
  assumes "db name = Some t" and "date_of now = date_of (last_reset_date t)"
  shows "snd (check_quota db name now db_now) = db"
proof -
  have "\<not> timedelta_days now (last_reset_date t) \<ge> 1"
    using same_date_no_whole_day [of now "last_reset_date t"] assms(2) by simp
  then show ?thesis using assms(1) by (simp add: check_quota_def)
qed

section \<open>Facts about the audio processor\<close>

lemma py_int_div1000:
  "py_int (real_of_int p / 1000) = (if 0 \<le> p then p div 1000 else - ((- p) div 1000))"
proof -
  have f: "\<lfloor>real_of_int q / real_of_int 1000\<rfloor> = q div 1000" for q
    by (rule floor_divide_of_int_eq)
  show ?thesis
  proof (cases "0 \<le> p")
    case True
    then have "0 \<le> real_of_int p / 1000" by simp
    then show ?thesis using True f [of p] by (simp add: py_int_def)
  next
    case False
    then have "\<not> 0 \<le> real_of_int p / 1000" by simp
    moreover have "\<lceil>real_of_int p / 1000\<rceil> = - \<lfloor>real_of_int (- p) / real_of_int 1000\<rfloor>"
      by (simp add: ceiling_def)
    ultimately show ?thesis using False f [of "- p"] by (simp add: py_int_def)
  qed
qed

lemma chunk_size_eq:
  "chunk_size a b = (if 0 \<le> a * b then (a * b) div 1000 else - ((- (a * b)) div 1000))"
  unfolding chunk_size_def by (rule py_int_div1000)

lemma chunk_size_pos_iff: "0 < chunk_size a b \<longleftrightarrow> 1000 \<le> a * b"
proof (cases "0 \<le> a * b")
  case True
  have "0 < (a * b) div 1000 \<longleftrightarrow> 1000 \<le> a * b"
    by (rule pos_imp_zdiv_pos_iff) simp
  then show ?thesis using True by (simp only: chunk_size_eq if_True)
next
  case False
  then have "0 \<le> (- (a * b)) div 1000"
    by (intro pos_imp_zdiv_nonneg_iff [THEN iffD2]) simp_all
  then show ?thesis using False by (simp only: chunk_size_eq if_False) linarith
qed

lemma trunc_div1000_zero_iff:
  "(if 0 \<le> p then p div 1000 else - ((- p) div 1000)) = 0 \<longleftrightarrow> - 1000 < p \<and> p < (1000::int)"
  by (auto simp: zdiv_eq_0_iff)

lemma chunk_size_zero_iff: "chunk_size a b = 0 \<longleftrightarrow> - 1000 < a * b \<and> a * b < 1000"
  unfolding chunk_size_eq by (rule trunc_div1000_zero_iff)

text \<open>The loop appends the non-empty slices in order.\<close>

lemma foldl_append_if:
  "foldl (\<lambda>acc i. (let c = f i in if length c > 0 then acc @ [c] else acc)) acc is
   = acc @ filter (\<lambda>c. c \<noteq> []) (map f is)"
  by (induction "is" arbitrary: acc) (simp_all add: Let_def)

lemma concat_filter_nonempty: "concat (filter (\<lambda>c. c \<noteq> []) yss) = concat yss"
  by (induction yss) simp_all

lemma concat_slices:
  "concat (map (\<lambda>k. take n (drop (k * n) xs)) [0..<m]) = take (m * n) xs"
proof (induction m)
  case 0
  then show ?case by simp
next
  case (Suc m)
  have "take (m * n) xs @ take n (drop (m * n) xs) = take (m * n + n) xs"
    by (simp add: take_add)
  then show ?case using Suc by (simp add: add.commute)
qed

lemma ceil_div_covers: "0 < n \<Longrightarrow> (len::nat) \<le> ((len + n - 1) div n) * n"
proof -
  assume n: "0 < n"
  have "len + n - 1 = ((len + n - 1) div n) * n + (len + n - 1) mod n" by simp
  moreover have "(len + n - 1) mod n \<le> n - 1" using n
    by (metis Suc_pred' less_Suc_eq_le mod_less_divisor)
  ultimately show ?thesis using n by linarith
qed

lemma ceil_div_tight: "0 < n \<Longrightarrow> Suc k < (len + n - 1) div n \<Longrightarrow> Suc k * n < (len::nat)"
proof -
  assume n: "0 < n" and k: "Suc k < (len + n - 1) div n"
  then have "Suc (Suc k) \<le> (len + n - 1) div n" by simp
  then have "Suc (Suc k) * n \<le> len + n - 1"
    using n by (simp add: less_eq_div_iff_mult_less_eq)
  then show ?thesis using n by simp
qed

lemma ceil_div_last: "0 < n \<Longrightarrow> k < (len + n - 1) div n \<Longrightarrow> k * n < (len::nat)"
proof -
  assume n: "0 < n" and k: "k < (len + n - 1) div n"
  then have "Suc k \<le> (len + n - 1) div n" by simp
  then have "Suc k * n \<le> len + n - 1"
    using n by (simp add: less_eq_div_iff_mult_less_eq)
  then show ?thesis using n by simp
qed

lemma split_audio_chunks_pos:
  assumes "0 < chunk_size sr d"
  shows "split_audio_chunks xs sr d =
           Inr (map (\<lambda>k. take (nat (chunk_size sr d)) (drop (k * nat (chunk_size sr d)) xs))
                  [0..<(length xs + nat (chunk_size sr d) - 1) div nat (chunk_size sr d)])"
proof -
  define n where "n = nat (chunk_size sr d)"
  define m where "m = (length xs + n - 1) div n"
  define f where "f = (\<lambda>i. take n (drop i xs))"
  have n: "0 < n" using assms by (simp add: n_def)
  have r: "py_range0 (length xs) (chunk_size sr d) = Inr (map (\<lambda>k. k * n) [0..<m])"
    using assms by (simp only: py_range0_def n_def m_def) simp
  have "\<forall>c \<in> set (map f (map (\<lambda>k. k * n) [0..<m])). c \<noteq> []"
  proof
    fix c assume "c \<in> set (map f (map (\<lambda>k. k * n) [0..<m]))"
    then obtain k where k: "k < m" and c: "c = take n (drop (k * n) xs)"
      by (auto simp: f_def)
    have "k * n < length xs" using ceil_div_last [OF n, of k "length xs"] k
      by (simp add: m_def)
    then show "c \<noteq> []" using n c by simp
  qed
  then have flt: "filter (\<lambda>c. c \<noteq> []) (map f (map (\<lambda>k. k * n) [0..<m]))
                  = map f (map (\<lambda>k. k * n) [0..<m])"
    by (simp only: filter_True)
  have "split_audio_chunks xs sr d
        = Inr (foldl (\<lambda>chunks i. (let chunk = f i
                                     in if length chunk > 0 then chunks @ [chunk] else chunks))
                 [] (map (\<lambda>k. k * n) [0..<m]))"
    by (simp only: split_audio_chunks_def Let_def r sum.case f_def n_def)
  also have "\<dots> = Inr (map f (map (\<lambda>k. k * n) [0..<m]))"
    by (simp only: foldl_append_if flt append_Nil)
  also have "\<dots> = Inr (map (\<lambda>k. take n (drop (k * n) xs)) [0..<m])"
    by (simp only: map_map comp_def f_def)
  finally show ?thesis by (simp only: n_def m_def)
qed

lemma split_audio_chunks_concat:
  assumes "0 < chunk_size sr d"
  shows "\<exists>chunks. split_audio_chunks xs sr d = Inr chunks \<and> concat chunks = xs
                  \<and> (chunks = [] \<longleftrightarrow> xs = [])"
proof -
  define n where "n = nat (chunk_size sr d)"
  define m where "m = (length xs + n - 1) div n"
  define chunks where "chunks = map (\<lambda>k. take n (drop (k * n) xs)) [0..<m]"
  have n: "0 < n" using assms by (simp add: n_def)
  have s: "split_audio_chunks xs sr d = Inr chunks"
    using split_audio_chunks_pos [OF assms, of xs] by (simp only: chunks_def n_def m_def)
  have "length xs \<le> m * n" using ceil_div_covers [OF n, of "length xs"] by (simp add: m_def)
  then have c: "concat chunks = xs" by (simp add: chunks_def concat_slices)
  have "chunks = [] \<longleftrightarrow> m = 0" by (simp add: chunks_def)
  also have "\<dots> \<longleftrightarrow> length xs = 0"
  proof
    assume "m = 0"
    then show "length xs = 0" using \<open>length xs \<le> m * n\<close> by simp
  next
    assume "length xs = 0"
    then show "m = 0" using n by (simp add: m_def)
  qed
  finally have "chunks = [] \<longleftrightarrow> xs = []" by simp
  with s c show ?thesis by blast
qed

lemma py_int_clip_bounds:
  "- 32768 \<le> py_int (np_clip x (- 32768) 32767) \<and> py_int (np_clip x (- 32768) 32767) \<le> 32767"
proof -
  define y where "y = np_clip x (- 32768) 32767"
  have lo: "- 32768 \<le> y" and hi: "y \<le> 32767"
    by (simp_all add: y_def np_clip_def)
  have "- 32768 \<le> py_int y"
  proof (cases "0 \<le> y")
    case True
    then have "0 \<le> \<lfloor>y\<rfloor>" by simp
    then show ?thesis using True by (simp add: py_int_def)
  next
    case False
    have "real_of_int (- 32768) \<le> y" using lo by simp
    then have "- 32768 \<le> \<lceil>y\<rceil>" by (simp only: le_ceiling_iff)
    then show ?thesis using False by (simp add: py_int_def)
  qed
  moreover have "py_int y \<le> 32767"
  proof (cases "0 \<le> y")
    case True
    have "y \<le> real_of_int 32767" using hi by simp
    then have "\<lfloor>y\<rfloor> \<le> 32767" by (simp only: floor_le_iff)
    then show ?thesis using True by (simp add: py_int_def)
  next
    case False
    then have "y \<le> 0" by simp
    then have "\<lceil>y\<rceil> \<le> 0" by (simp add: ceiling_le_zero)
    then show ?thesis using False by (simp add: py_int_def)
  qed
  ultimately show ?thesis by (simp add: y_def)
qed

lemma wrap_int16_id: "- 32768 \<le> v \<Longrightarrow> v \<le> 32767 \<Longrightarrow> (v + 32768) mod 65536 - 32768 = (v::int)"
  by (simp add: mod_pos_pos_trivial)

lemma astype_int16_clip:
  "astype_int16 (np_clip x (- 32768) 32767) = py_int (np_clip x (- 32768) 32767)"
  using py_int_clip_bounds [of x] by (simp add: astype_int16_def wrap_int16_id)

lemma scale_clip_no_wrap:
  "scale_clip f32 gain xs
   = map (\<lambda>s. py_int (np_clip (f32 (real_of_int s * gain)) (- 32768) 32767)) xs"
  by (simp add: scale_clip_def astype_int16_clip)

lemma scale_clip_range: "list_all int16 (scale_clip f32 gain xs)"
  using py_int_clip_bounds
  by (simp add: scale_clip_no_wrap list_all_iff int16_def)

lemma py_int_of_int: "py_int (real_of_int k) = k"
  by (simp add: py_int_def)

lemma clip_above: "32767 \<le> x \<Longrightarrow> py_int (np_clip x (- 32768) 32767) = 32767"
proof -
  assume "32767 \<le> x"
  then have "np_clip x (- 32768) 32767 = real_of_int 32767" by (simp add: np_clip_def)
  then show ?thesis by (simp only: py_int_of_int)
qed

lemma clip_below: "x \<le> - 32768 \<Longrightarrow> py_int (np_clip x (- 32768) 32767) = - 32768"
proof -
  assume "x \<le> - 32768"
  then have "np_clip x (- 32768) 32767 = real_of_int (- 32768)" by (simp add: np_clip_def)
  then show ?thesis by (simp only: py_int_of_int)
qed

lemma clip_cast_clipped: "astype_int16 (np_clip x (- 32768) 32767) = clipped_sample x"
proof -
  consider "32767 \<le> x" | "x \<le> - 32768" | "- 32768 < x" "x < 32767" by linarith
  then show ?thesis
  proof cases
    case 1
    then show ?thesis by (simp add: astype_int16_clip clip_above clipped_sample_def)
  next
    case 2
    then show ?thesis by (simp add: astype_int16_clip clip_below clipped_sample_def)
  next
    case 3
    then have e: "np_clip x (- 32768) 32767 = x" by (simp add: np_clip_def)
    have c: "clipped_sample x = py_int x" using 3 by (simp add: clipped_sample_def)
    show ?thesis using astype_int16_clip [of x] by (simp only: e c)
  qed
qed

lemma scale_clip_clipped:
  "scale_clip f32 gain xs = map (\<lambda>s. clipped_sample (f32 (real_of_int s * gain))) xs"
  by (simp add: scale_clip_def clip_cast_clipped)

lemma float_max_ge_10: "10 \<le> float_max"
  by (simp add: float_max_def)

section \<open>Facts about the synthesis route\<close>

lemma find_voice_None:
  "\<forall>e \<in> set entries. py_lower (entry_name e) \<noteq> py_lower requested
   \<Longrightarrow> find_voice entries requested i = None"
  by (induction entries arbitrary: i) simp_all

lemma entry_names: "entry_name ` set (list_voices e) = voice_name ` set (available_voices e)"
proof -
  have "map entry_name (list_voices e) = map voice_name (available_voices e)"
    unfolding list_voices_def map_map
    by (rule nth_equalityI) (simp_all add: nth_enumerate_eq)
  then have "set (map entry_name (list_voices e)) = set (map voice_name (available_voices e))"
    by simp
  then show ?thesis by (simp only: set_map)
qed

lemma select_voice_no_match:
  assumes "v \<noteq> []" and "v \<noteq> ''default''"
    and "\<forall>a \<in> set (available_voices (engine st)). py_lower (voice_name a) \<noteq> py_lower v"
  shows "select_voice st (Some v)
         = st\<lparr> warnings := warnings st @ [''Voice '' @ v @ '' not found, using default''] \<rparr>"
proof -
  have "\<forall>e \<in> set (list_voices (engine st)). py_lower (entry_name e) \<noteq> py_lower v"
  proof
    fix e assume "e \<in> set (list_voices (engine st))"
    then have "entry_name e \<in> voice_name ` set (available_voices (engine st))"
      using entry_names [of "engine st"] by blast
    then show "py_lower (entry_name e) \<noteq> py_lower v" using assms(3) by auto
  qed
  then have "find_voice (list_voices (engine st)) v 0 = None" by (rule find_voice_None)
  then show ?thesis using assms(1,2) by (simp add: select_voice_def)
qed

text \<open>
  A request whose voice name matches no enumerated voice, names compared in lower case:
  the engine's active voice stays what it was before the request; the request fails
  exactly when the same request with the voice \<open>default\<close> fails; once the text is accepted
  and the engine is initialised the warning is logged; and when the engine produces audio
  the request succeeds with that audio.
\<close>

lemma speak_text_no_match:
  assumes "voice request = Some v" and "v \<noteq> []" and "v \<noteq> ''default''"
    and "\<forall>a \<in> set (available_voices (engine st)). py_lower (voice_name a) \<noteq> py_lower v"
  shows "voice_property (engine (snd (speak_text synth st request))) = voice_property (engine st)
       \<and> isl (fst (speak_text synth st request))
           = isl (fst (speak_text synth st (request\<lparr> voice := Some ''default'' \<rparr>)))
       \<and> (text request \<noteq> [] \<and> py_strip (text request) \<noteq> [] \<and> length (text request) \<le> 5000
            \<and> is_initialized (engine st) \<longrightarrow>
          warnings (snd (speak_text synth st request))
            = warnings st @ [''Voice '' @ v @ '' not found, using default''])
       \<and> (text request \<noteq> [] \<and> py_strip (text request) \<noteq> [] \<and> length (text request) \<le> 5000
            \<and> is_initialized (engine st)
            \<and> synth (engine st\<lparr> rate_property := py_int (150 * speed request) \<rparr>) (text request)
                = Audio samples sample_rate
            \<and> sample_rate \<noteq> 0 \<longrightarrow>
          fst (speak_text synth st request)
            = Inr \<lparr> audio_data = samples,
                    duration_seconds = real (length samples) / real_of_int sample_rate,
                    voice_used = v \<rparr>)"
proof -
  let ?w = "''Voice '' @ v @ '' not found, using default''"
  let ?st1 = "st\<lparr> backends := (backends st)\<lparr> tts := PYTTSX3 \<rparr> \<rparr>"
  have sel: "select_voice ?st1 (Some v) = ?st1\<lparr> warnings := warnings ?st1 @ [?w] \<rparr>"
    using assms(2-4) by (intro select_voice_no_match) simp_all
  have dflt: "select_voice ?st1 (Some ''default'') = ?st1"
    by (simp add: select_voice_def)
  show ?thesis
    using assms(1) sel dflt
    by (auto simp: speak_text_def get_best_tts_backend_def set_rate_def Let_def
          split: tts_outcome.splits)
qed

section \<open>Results: quota manager\<close>

text \<open>
  C10. For a service name that has no row in the table, \<open>track_usage\<close> returns the table
  as it was: no row is created, no row is modified, and the call returns normally.
\<close>

theorem track_usage_absent_unchanged:
  "db name = None \<Longrightarrow> track_usage db name units now = db"
  by (simp add: track_usage_def)

theorem track_usage_absent_unchanged_witness:
  "(Map.empty :: quota_table) ''whisper'' = None
   \<and> track_usage Map.empty ''whisper'' 3 0 = Map.empty"
  using track_usage_absent_unchanged [of Map.empty "''whisper''" 3 0] by simp

text \<open>
  C1 fails on the code. The branch commented "Reset if new day" tests the whole days
  elapsed since the last reset, not the calendar date. A counter is reset by a check at
  23:00 (local time, day 1), five calls are tracked before midnight, and the next check
  comes at 01:00 on day 2: the counter's \<open>last_reset_date\<close> is on an earlier calendar date
  than now, yet the check resets nothing, leaves \<open>daily_calls\<close> at 5 and answers from it.
\<close>

theorem check_quota_new_day_keeps_calls:
  "snd (check_quota
          (Map.empty(''huggingface'' \<mapsto>
             \<lparr> service_name = ''huggingface'', daily_calls = 40, daily_limit = 1000,
               last_reset_date = 0, is_quota_exceeded = False, updated_at = None \<rparr>))
          ''huggingface'' 169200000000 162000000000) ''huggingface''
     = Some \<lparr> service_name = ''huggingface'', daily_calls = 0, daily_limit = 1000,
              last_reset_date = 169200000000, is_quota_exceeded = False,
              updated_at = Some 162000000000 \<rparr>
   \<and> track_each
         (Map.empty(''huggingface'' \<mapsto>
            \<lparr> service_name = ''huggingface'', daily_calls = 0, daily_limit = 1000,
              last_reset_date = 169200000000, is_quota_exceeded = False,
              updated_at = Some 162000000000 \<rparr>))
         ''huggingface'' [169300000000, 169400000000, 169500000000, 169600000000, 169700000000]
     = Map.empty(''huggingface'' \<mapsto>
            \<lparr> service_name = ''huggingface'', daily_calls = 5, daily_limit = 1000,
              last_reset_date = 169200000000, is_quota_exceeded = False,
              updated_at = Some 169700000000 \<rparr>)
   \<and> date_of 169200000000 < date_of 176400000000
   \<and> check_quota
         (Map.empty(''huggingface'' \<mapsto>
            \<lparr> service_name = ''huggingface'', daily_calls = 5, daily_limit = 1000,
              last_reset_date = 169200000000, is_quota_exceeded = False,
              updated_at = Some 169700000000 \<rparr>))
         ''huggingface'' 176400000000 169200000000
     = ((True, 995),
        Map.empty(''huggingface'' \<mapsto>
            \<lparr> service_name = ''huggingface'', daily_calls = 5, daily_limit = 1000,
              last_reset_date = 169200000000, is_quota_exceeded = False,
              updated_at = Some 169700000000 \<rparr>))"
  by (simp add: check_quota_def track_each_def track_usage_def date_of_def timedelta_days_def
        us_per_day_def)

text \<open>
  C2 at the reset of \<open>check_quota\<close>. A new manager on an empty table, 1000 tracked calls
  to huggingface (limit 1000) and a check two days later: the reset sets \<open>daily_calls\<close> to 0
  and leaves \<open>is_quota_exceeded\<close> at True, so the flag no longer agrees with the counts.
  (New rows and \<open>track_usage\<close> do keep the agreement: \<open>flag_agrees_new_tracker\<close>,
  \<open>flag_agrees_track_usage\<close>.)
\<close>

theorem check_quota_reset_keeps_flag:
  "snd (check_quota
          (track_each (initialize_quota_trackers Map.empty 0) ''huggingface''
             (replicate 1000 3600000000))
          ''huggingface'' 172800000000 172800000000) ''huggingface''
     = Some \<lparr> service_name = ''huggingface'', daily_calls = 0, daily_limit = 1000,
              last_reset_date = 172800000000, is_quota_exceeded = True,
              updated_at = Some 172800000000 \<rparr>
   \<and> \<not> flag_agrees \<lparr> service_name = ''huggingface'', daily_calls = 0, daily_limit = 1000,
              last_reset_date = 172800000000, is_quota_exceeded = True,
              updated_at = Some 172800000000 \<rparr>"
proof -
  have i: "initialize_quota_trackers Map.empty 0 ''huggingface''
           = Some (new_tracker ''huggingface'' (Calls 1000) 0)"
    by (simp add: initialize_quota_trackers_lookup DEFAULT_QUOTAS_def)
  have "track_each (initialize_quota_trackers Map.empty 0) ''huggingface''
             (replicate 1000 3600000000) ''huggingface''
        = Some \<lparr> service_name = ''huggingface'', daily_calls = 1000, daily_limit = 1000,
              last_reset_date = 0, is_quota_exceeded = True,
              updated_at = Some 3600000000 \<rparr>"
    using track_each_present
            [of "initialize_quota_trackers Map.empty 0" "''huggingface''"
                "new_tracker ''huggingface'' (Calls 1000) 0" "replicate 1000 3600000000"] i
    by (simp add: new_tracker_def)
  then show ?thesis
    by (simp add: check_quota_def timedelta_days_def us_per_day_def flag_agrees_def)
qed



text \<open>
  C4, as the code has it. \<open>check_quota\<close> for a service without a row creates nothing: the
  table stays as it is and the answer is \<open>(True, 999999)\<close>. Rows are created when the
  manager is constructed, for each service of \<open>DEFAULT_QUOTAS\<close> that has none, with zero
  usage and the configured limit (999999 for an unlimited one); no other row is created
  and existing rows are kept.
\<close>

theorem check_quota_absent_creates_nothing:
  "(db name = None \<longrightarrow> check_quota db name now db_now = ((True, 999999), db))
   \<and> (db name = None \<and> (name, limit) \<in> set DEFAULT_QUOTAS \<longrightarrow>
        (\<exists>t. initialize_quota_trackers db db_now name = Some t
           \<and> service_name t = name
           \<and> daily_calls t = 0
           \<and> daily_limit t = (case limit of Inf \<Rightarrow> 999999 | Calls n \<Rightarrow> n)))
   \<and> (db name = None \<and> name \<notin> fst ` set DEFAULT_QUOTAS \<longrightarrow>
        initialize_quota_trackers db db_now name = None)
   \<and> (db name = Some t \<longrightarrow> initialize_quota_trackers db db_now name = Some t)"
  by (auto simp: check_quota_def initialize_quota_trackers_lookup DEFAULT_QUOTAS_def
        new_tracker_def)

theorem check_quota_absent_creates_nothing_witness:
  "check_quota Map.empty ''vosk'' 5 5 = ((True, 999999), Map.empty)
   \<and> (\<exists>t. initialize_quota_trackers Map.empty 5 ''vosk'' = Some t
         \<and> service_name t = ''vosk'' \<and> daily_calls t = 0 \<and> daily_limit t = 999999)
   \<and> initialize_quota_trackers Map.empty 5 ''whisper'' = None
   \<and> initialize_quota_trackers
        (Map.empty(''vosk'' \<mapsto>
           \<lparr> service_name = ''vosk'', daily_calls = 3, daily_limit = 10,
             last_reset_date = 1, is_quota_exceeded = False, updated_at = None \<rparr>)) 5 ''vosk''
       = Some \<lparr> service_name = ''vosk'', daily_calls = 3, daily_limit = 10,
             last_reset_date = 1, is_quota_exceeded = False, updated_at = None \<rparr>"
  using check_quota_absent_creates_nothing [of Map.empty "''vosk''" 5 5 Inf]
        check_quota_absent_creates_nothing [of Map.empty "''whisper''" 5 5 Inf]
        check_quota_absent_creates_nothing
          [of "Map.empty(''vosk'' \<mapsto>
                 \<lparr> service_name = ''vosk'', daily_calls = 3, daily_limit = 10,
                   last_reset_date = 1, is_quota_exceeded = False, updated_at = None \<rparr>)"
              "''vosk''" 5 5 Inf]
  by (simp add: DEFAULT_QUOTAS_def)

text \<open>
  C4 as stated fails: after the first check on an empty table there is still no row for
  the service.
\<close>

theorem check_quota_creates_counter_counterexample:
  "check_quota Map.empty ''huggingface'' 0 0 = ((True, 999999), Map.empty)
   \<and> snd (check_quota Map.empty ''huggingface'' 0 0) ''huggingface'' = None"
  by (simp add: check_quota_def)

text \<open>
  C5. \<open>get_best_ai_backend\<close> returns the cloud backend (HuggingFace) exactly when the check
  of the huggingface quota says it is available, and the local backend (Ollama) otherwise;
  it never returns the fixed-response fallback.
\<close>

theorem get_best_ai_backend_policy:
  "fst (get_best_ai_backend cb db now db_now)
     = (if fst (fst (check_quota db ''huggingface'' now db_now)) then HUGGINGFACE else OLLAMA)
   \<and> fst (get_best_ai_backend cb db now db_now) \<noteq> FALLBACK"
  by (auto simp: get_best_ai_backend_def check_quota_def Let_def split: option.splits)

theorem get_best_ai_backend_policy_witness:
  "fst (get_best_ai_backend \<lparr> ai = HUGGINGFACE, stt = VOSK, tts = PYTTSX3 \<rparr>
          (Map.empty(''huggingface'' \<mapsto>
             \<lparr> service_name = ''huggingface'', daily_calls = 1000, daily_limit = 1000,
               last_reset_date = 0, is_quota_exceeded = True, updated_at = Some 5 \<rparr>))
          7 7) = OLLAMA"
  using get_best_ai_backend_policy
          [of "\<lparr> ai = HUGGINGFACE, stt = VOSK, tts = PYTTSX3 \<rparr>"
              "Map.empty(''huggingface'' \<mapsto>
                 \<lparr> service_name = ''huggingface'', daily_calls = 1000, daily_limit = 1000,
                   last_reset_date = 0, is_quota_exceeded = True, updated_at = Some 5 \<rparr>)"
              7 7]
  by (simp add: check_quota_def timedelta_days_def us_per_day_def)

section \<open>Results: audio processor\<close>

text \<open>
  C6, as the code has it. When the chunk holds at least one sample, that is when
  \<open>sample_rate * chunk_duration_ms\<close> is at least 1000, splitting a frame and concatenating
  the chunks gives the frame back.
\<close>

theorem split_concatenate_round_trip:
  assumes "1000 \<le> sample_rate * chunk_duration_ms"
  shows "map_sum id concatenate_chunks (split_audio_chunks xs sample_rate chunk_duration_ms) = Inr xs"
proof -
  have "0 < chunk_size sample_rate chunk_duration_ms"
    using assms by (simp add: chunk_size_pos_iff)
  then obtain chunks where "split_audio_chunks xs sample_rate chunk_duration_ms = Inr chunks"
    and "concat chunks = xs"
    using split_audio_chunks_concat [of sample_rate chunk_duration_ms xs] by blast
  then show ?thesis by (auto simp: concatenate_chunks_def)
qed

theorem split_concatenate_round_trip_witness:
  "split_audio_chunks [1, 2, 3, 4, 5 :: int] 1000 2 = Inr [[1, 2], [3, 4], [5]]
   \<and> map_sum id concatenate_chunks (split_audio_chunks [1, 2, 3, 4, 5 :: int] 1000 2)
       = Inr [1, 2, 3, 4, 5]"
proof -
  have "split_audio_chunks [1, 2, 3, 4, 5 :: int] 1000 2 = Inr [[1, 2], [3, 4], [5]]"
    by (simp add: split_audio_chunks_def py_range0_def chunk_size_eq Let_def
          numeral_3_eq_3)
  then show ?thesis
    using split_concatenate_round_trip [of 1000 2 "[1, 2, 3, 4, 5 :: int]"] by simp
qed

text \<open>
  C6 as stated, for every positive chunk duration, fails: at 500 Hz a chunk of 1 ms has
  \<open>int(0.5) = 0\<close> samples, the range has step 0 and \<open>split_audio_chunks\<close> raises
  \<open>ValueError\<close> instead of returning chunks.
\<close>

theorem split_concatenate_counterexample:
  "(0::int) < 1
   \<and> split_audio_chunks [7 :: int] 500 1 = Inl ValueError
   \<and> map_sum id concatenate_chunks (split_audio_chunks [7 :: int] 500 1) \<noteq> Inr [7]"
  by (simp add: split_audio_chunks_def py_range0_def chunk_size_eq)

text \<open>
  C7, as the code has it. When \<open>sample_rate * chunk_duration_ms\<close> is at least 1000, the
  chunk size \<open>int(sample_rate * chunk_duration_ms / 1000)\<close> is the quotient rounded down
  and at least one sample, and \<open>split_audio_chunks\<close> returns the chunks in order (their
  concatenation is the frame); every chunk but the last has exactly \<open>chunk_size\<close> samples;
  every chunk, the last included, is non-empty and has at most \<open>chunk_size\<close> samples. At
  16000 Hz and 5000 ms a frame of 185000 samples is split into chunks of 80000, 80000 and
  25000 samples.
\<close>

theorem split_audio_chunks_shape:
  "(1000 \<le> sample_rate * chunk_duration_ms \<longrightarrow>
      (\<exists>chunks. split_audio_chunks xs sample_rate chunk_duration_ms = Inr chunks
         \<and> chunk_size sample_rate chunk_duration_ms = sample_rate * chunk_duration_ms div 1000
         \<and> 0 < chunk_size sample_rate chunk_duration_ms
         \<and> concat chunks = xs
         \<and> (\<forall>i. Suc i < length chunks \<longrightarrow>
                length (chunks ! i) = nat (chunk_size sample_rate chunk_duration_ms))
         \<and> (\<forall>i < length chunks. 0 < length (chunks ! i)
                \<and> length (chunks ! i) \<le> nat (chunk_size sample_rate chunk_duration_ms))))
   \<and> (length ys = 185000 \<longrightarrow>
        (\<exists>chunks. split_audio_chunks ys 16000 5000 = Inr chunks
           \<and> map length chunks = [80000, 80000, 25000]))"
proof (intro conjI impI)
  assume big: "1000 \<le> sample_rate * chunk_duration_ms"
  then have pos: "0 < chunk_size sample_rate chunk_duration_ms"
    by (simp add: chunk_size_pos_iff)
  have quot: "chunk_size sample_rate chunk_duration_ms
              = sample_rate * chunk_duration_ms div 1000"
    using big by (simp add: chunk_size_eq)
  define n where "n = nat (chunk_size sample_rate chunk_duration_ms)"
  define m where "m = (length xs + n - 1) div n"
  define chunks where "chunks = map (\<lambda>k. take n (drop (k * n) xs)) [0..<m]"
  have n: "0 < n" using pos by (simp add: n_def)
  have s: "split_audio_chunks xs sample_rate chunk_duration_ms = Inr chunks"
    using split_audio_chunks_pos [OF pos, of xs] by (simp only: chunks_def n_def m_def)
  have c: "concat chunks = xs"
    using split_audio_chunks_concat [OF pos, of xs] s by auto
  have len: "length chunks = m" by (simp add: chunks_def)
  have nth: "length (chunks ! i) = min n (length xs - i * n)" if "i < m" for i
    using that by (simp add: chunks_def min.commute)
  have full: "length (chunks ! i) = n" if "Suc i < length chunks" for i
  proof -
    have "Suc i * n < length xs"
      using ceil_div_tight [OF n, of i "length xs"] that by (simp add: len m_def)
    then have "n \<le> length xs - i * n" by simp
    moreover have "i < m" using that len by simp
    ultimately show ?thesis using nth [of i] by simp
  qed
  have part: "0 < length (chunks ! i) \<and> length (chunks ! i) \<le> n" if "i < length chunks" for i
  proof -
    have "i * n < length xs"
      using ceil_div_last [OF n, of i "length xs"] that by (simp add: len m_def)
    moreover have "i < m" using that len by simp
    ultimately show ?thesis using nth [of i] n by simp
  qed
  show "\<exists>chunks. split_audio_chunks xs sample_rate chunk_duration_ms = Inr chunks
         \<and> chunk_size sample_rate chunk_duration_ms = sample_rate * chunk_duration_ms div 1000
         \<and> 0 < chunk_size sample_rate chunk_duration_ms
         \<and> concat chunks = xs
         \<and> (\<forall>i. Suc i < length chunks \<longrightarrow>
                length (chunks ! i) = nat (chunk_size sample_rate chunk_duration_ms))
         \<and> (\<forall>i < length chunks. 0 < length (chunks ! i)
                \<and> length (chunks ! i) \<le> nat (chunk_size sample_rate chunk_duration_ms))"
    using s c full part pos quot unfolding n_def by blast
next
  assume l: "length ys = 185000"
  have cs: "chunk_size 16000 5000 = 80000" by (simp add: chunk_size_eq)
  define chunks where "chunks = map (\<lambda>k. take 80000 (drop (k * 80000) ys)) [0..<3]"
  have "split_audio_chunks ys 16000 5000 = Inr chunks"
    using split_audio_chunks_pos [of 16000 5000 ys] by (simp add: cs l chunks_def)
  moreover have "map length chunks = [80000, 80000, 25000]"
    by (simp add: numeral_3_eq_3 l chunks_def)
  ultimately have "split_audio_chunks ys 16000 5000 = Inr chunks
           \<and> map length chunks = [80000, 80000, 25000]"
    by (rule conjI)
  then show "\<exists>chunks. split_audio_chunks ys 16000 5000 = Inr chunks
           \<and> map length chunks = [80000, 80000, 25000]"
    by (rule exI)
qed

theorem split_audio_chunks_shape_witness:
  "split_audio_chunks ''abcde'' 2500 1 = Inr [''ab'', ''cd'', ''e'']
   \<and> (\<exists>chunks. split_audio_chunks (replicate 185000 (0::int)) 16000 5000 = Inr chunks
           \<and> map length chunks = [80000, 80000, 25000])"
proof
  show "split_audio_chunks ''abcde'' 2500 1 = Inr [''ab'', ''cd'', ''e'']"
    by (simp add: split_audio_chunks_def py_range0_def chunk_size_eq Let_def
          numeral_3_eq_3)
  have l: "length (replicate 185000 (0::int)) = 185000"
    by (simp only: length_replicate)
  have "length (replicate 185000 (0::int)) = 185000 \<longrightarrow>
        (\<exists>chunks. split_audio_chunks (replicate 185000 (0::int)) 16000 5000 = Inr chunks
           \<and> map length chunks = [80000, 80000, 25000])"
    using split_audio_chunks_shape [of 2500 1 "''abcde''" "replicate 185000 (0::int)"]
    by (rule conjunct2)
  then show "\<exists>chunks. split_audio_chunks (replicate 185000 (0::int)) 16000 5000 = Inr chunks
           \<and> map length chunks = [80000, 80000, 25000]"
    using l by (rule mp)
qed

text \<open>
  C7 as stated, for every sample rate and duration, fails: at 999 Hz a chunk of 1 ms has
  \<open>int(0.999) = 0\<close> samples and \<open>split_audio_chunks\<close> raises \<open>ValueError\<close> instead of
  returning a list; at a negative rate the range is empty, the list returned is empty and
  the samples of the frame are in no chunk.
\<close>

theorem split_audio_chunks_shape_counterexample:
  "split_audio_chunks [1, 2, 3 :: int] 999 1 = Inl ValueError
   \<and> split_audio_chunks [1, 2, 3 :: int] (- 1000) 1 = Inr []"
  by (simp add: split_audio_chunks_def py_range0_def chunk_size_eq)

text \<open>
  C8. For a frame of 16-bit samples, every sample of the output of \<open>normalize_audio\<close> and
  of \<open>apply_gain\<close> is in the 16-bit signed range, and the output is what the clipping
  policy says: \<open>normalize_audio\<close> returns the frame itself when its RMS is 0 and otherwise,
  sample by sample, the clipped product of the sample and the gain that reaches the
  target level; \<open>apply_gain\<close> returns, sample by sample, the clipped product of the sample
  and the linear gain (and the frame itself when computing that gain overflows). A product
  at or beyond a bound of the range gives that bound, never a value wrapped modulo
  \<open>2 ^ 16\<close>.
\<close>

theorem gain_outputs_clipped:
  assumes "list_all int16 frame"
  shows "list_all int16 (normalize_audio f32 frame target_db)
       \<and> list_all int16 (apply_gain f32 frame gain_db)
       \<and> (sqrt (np_mean (map (\<lambda>s. (real_of_int s)\<^sup>2) frame)) = 0 \<longrightarrow>
            normalize_audio f32 frame target_db = frame)
       \<and> (sqrt (np_mean (map (\<lambda>s. (real_of_int s)\<^sup>2) frame)) \<noteq> 0 \<longrightarrow>
            normalize_audio f32 frame target_db
              = map (\<lambda>s. clipped_sample
                           (f32 (real_of_int s
                                 * 10 powr ((target_db
                                             - 20 * log 10 (sqrt (np_mean (map (\<lambda>s. (real_of_int s)\<^sup>2) frame))
                                                            / 32767))
                                            / 20))))
                  frame)
       \<and> (10 powr (gain_db / 20) \<le> float_max \<longrightarrow>
            apply_gain f32 frame gain_db
              = map (\<lambda>s. clipped_sample (f32 (real_of_int s * 10 powr (gain_db / 20)))) frame)
       \<and> (float_max < 10 powr (gain_db / 20) \<longrightarrow> apply_gain f32 frame gain_db = frame)"
proof (intro conjI impI)
  show "list_all int16 (normalize_audio f32 frame target_db)"
    using assms scale_clip_range by (simp add: normalize_audio_def Let_def)
  show "list_all int16 (apply_gain f32 frame gain_db)"
    using assms scale_clip_range by (simp add: apply_gain_def split: sum.split)
next
  assume "sqrt (np_mean (map (\<lambda>s. (real_of_int s)\<^sup>2) frame)) = 0"
  then show "normalize_audio f32 frame target_db = frame"
    by (simp add: normalize_audio_def Let_def)
next
  assume "sqrt (np_mean (map (\<lambda>s. (real_of_int s)\<^sup>2) frame)) \<noteq> 0"
  then show "normalize_audio f32 frame target_db
              = map (\<lambda>s. clipped_sample
                           (f32 (real_of_int s
                                 * 10 powr ((target_db
                                             - 20 * log 10 (sqrt (np_mean (map (\<lambda>s. (real_of_int s)\<^sup>2) frame))
                                                            / 32767))
                                            / 20))))
                  frame"
    by (simp add: normalize_audio_def Let_def scale_clip_clipped)
next
  assume "10 powr (gain_db / 20) \<le> float_max"
  then show "apply_gain f32 frame gain_db
              = map (\<lambda>s. clipped_sample (f32 (real_of_int s * 10 powr (gain_db / 20)))) frame"
    by (simp add: apply_gain_def py_pow10_def scale_clip_clipped)
next
  assume "float_max < 10 powr (gain_db / 20)"
  then show "apply_gain f32 frame gain_db = frame"
    by (simp add: apply_gain_def py_pow10_def)
qed

theorem gain_outputs_clipped_witness:
  "list_all int16 [1000, - 7000]
   \<and> normalize_audio (\<lambda>x. x) [1000, - 7000] 0 = [6553, - 32768]
   \<and> list_all int16 [20000, - 20000, 100]
   \<and> apply_gain (\<lambda>x. x) [20000, - 20000, 100] 20 = [32767, - 32768, 1000]"
proof -
  have a: "list_all int16 [1000, - 7000]" by (simp add: int16_def)
  have b: "list_all int16 [20000, - 20000, 100]" by (simp add: int16_def)
  have "(5000::real)\<^sup>2 = 25000000" by simp
  then have "sqrt 25000000 = 5000"
    by (intro real_sqrt_unique) simp_all
  then have rms: "sqrt (np_mean (map (\<lambda>s. (real_of_int s)\<^sup>2) [1000, - 7000])) = 5000"
    by (simp add: np_mean_def)
  have "10 powr (- log 10 (5000 / 32767)) = inverse (10 powr log 10 (5000 / 32767))"
    by (rule powr_minus)
  then have gain: "10 powr ((0 - 20 * log 10 (5000 / 32767)) / 20) = 32767 / 5000"
    by simp
  have ne: "sqrt (np_mean (map (\<lambda>s. (real_of_int s)\<^sup>2) [1000, - 7000])) \<noteq> 0"
    by (simp only: rms)
  have "normalize_audio (\<lambda>x. x) [1000, - 7000] 0
        = map (\<lambda>s. clipped_sample (real_of_int s * (32767 / 5000))) [1000, - 7000]"
    using gain_outputs_clipped
            [OF a, of "\<lambda>x. x" 0 0, THEN conjunct2, THEN conjunct2, THEN conjunct2,
             THEN conjunct1, THEN mp, OF ne]
    by (simp only: rms gain)
  then have n: "normalize_audio (\<lambda>x. x) [1000, - 7000] 0 = [6553, - 32768]"
    by (simp add: clipped_sample_def py_int_def)
  have ten: "10 powr (20 / 20) = (10::real)" by simp
  have g: "apply_gain (\<lambda>x. x) [20000, - 20000, 100] 20 = [32767, - 32768, 1000]"
    using gain_outputs_clipped [OF b, of "\<lambda>x. x" 0 20] ten float_max_ge_10
    by (simp add: clipped_sample_def py_int_def)
  show ?thesis using a b n g by simp
qed

section \<open>Results: synthesis route\<close>

text \<open>
  C9 fails on the code in its first part. An engine is initialised with the voices Alice
  and Bob and the configured default index 0, so Alice is the default voice. A first
  request names the voice "bob", which matches, and the route selects Bob on the one
  engine of the process. A second request names "Carol", which matches no voice: the route
  logs "Voice Carol not found, using default", selects nothing, and the speech is
  synthesised with Bob's voice, not with the configured default. The request does
  complete, and the warning is recorded.
\<close>

theorem speak_text_unknown_voice_after_match:
  "voice_property
     (initialize_engine \<lparr> pyttsx3_voice_index = 0, pyttsx3_rate = 150, pyttsx3_volume = 1 \<rparr>
        (Some ([\<lparr> voice_id = ''id-a'', voice_name = ''Alice'' \<rparr>,
                \<lparr> voice_id = ''id-b'', voice_name = ''Bob'' \<rparr>], ''id-a''))) = ''id-a''
   \<and> speak_text
         (\<lambda>e t. if voice_property e = ''id-a'' then Audio [1, 1] 2 else Audio [2, 2] 2)
         (snd (speak_text
                 (\<lambda>e t. if voice_property e = ''id-a'' then Audio [1, 1] 2 else Audio [2, 2] 2)
                 \<lparr> engine =
                     initialize_engine
                       \<lparr> pyttsx3_voice_index = 0, pyttsx3_rate = 150, pyttsx3_volume = 1 \<rparr>
                       (Some ([\<lparr> voice_id = ''id-a'', voice_name = ''Alice'' \<rparr>,
                               \<lparr> voice_id = ''id-b'', voice_name = ''Bob'' \<rparr>], ''id-a'')),
                   backends = \<lparr> ai = HUGGINGFACE, stt = VOSK, tts = PYTTSX3 \<rparr>,
                   warnings = [] \<rparr>
                 \<lparr> text = ''hi'', voice = Some ''bob'', speed = 1, language = ''en-US'' \<rparr>))
         \<lparr> text = ''hi'', voice = Some ''Carol'', speed = 1, language = ''en-US'' \<rparr>
     = (Inr \<lparr> audio_data = [2, 2], duration_seconds = 1, voice_used = ''Carol'' \<rparr>,
        \<lparr> engine =
            \<lparr> tts_settings =
                \<lparr> pyttsx3_voice_index = 0, pyttsx3_rate = 150, pyttsx3_volume = 1 \<rparr>,
              is_initialized = True,
              available_voices = [\<lparr> voice_id = ''id-a'', voice_name = ''Alice'' \<rparr>,
                                  \<lparr> voice_id = ''id-b'', voice_name = ''Bob'' \<rparr>],
              voice_property = ''id-b'', rate_property = 150, volume_property = 1 \<rparr>,
          backends = \<lparr> ai = HUGGINGFACE, stt = VOSK, tts = PYTTSX3 \<rparr>,
          warnings = [''Voice Carol not found, using default''] \<rparr>)"
proof -
  have l: "py_lower ''Alice'' = ''alice''" "py_lower ''Bob'' = ''bob''"
    "py_lower ''bob'' = ''bob''" "py_lower ''Carol'' = ''carol''"
    by code_simp+
  have s: "py_strip ''hi'' = ''hi''"
    by code_simp
  have r: "py_int 150 = 150" by (simp add: py_int_def)
  show ?thesis
    by (simp add: speak_text_def select_voice_def list_voices_def set_voice_def set_rate_def
          initialize_engine_def get_best_tts_backend_def enumerate_eq_zip Let_def l s r)
qed

end
